theory Spec2Isabelle
  imports Main "HOL-Library.Sublist"
begin

section \<open>JavaScript values used by the client\<close>

text \<open>
  A value of type \<open>string | null\<close> is a \<open>string option\<close>, with \<open>None\<close> for
  \<open>null\<close>.  The source tests such values by truthiness (\<open>if (x)\<close>, \<open>!x\<close>,
  \<open>x || y\<close>): \<open>null\<close> and the empty string are both falsy.
\<close>

fun truthy :: "string option \<Rightarrow> bool" where
  "truthy None = False"
| "truthy (Some s) = (s \<noteq> [])"

text \<open>\<open>a || d\<close> where \<open>d\<close> is a string literal.\<close>

fun or_default :: "string option \<Rightarrow> string \<Rightarrow> string" where
  "or_default None d = d"
| "or_default (Some s) d = (if s \<noteq> [] then s else d)"

text \<open>An \<open>Error\<close> object; only its \<open>message\<close> is ever read.\<close>

datatype Error = Error (message: string)

text \<open>
  What a call of the platform or of an injected function may throw: JavaScript throws any
  value.  The source reads \<open>error.message\<close> of the value it catches, so three kinds are
  told apart: \<open>null\<close> or \<open>undefined\<close>, of which no property can be read; a value
  without a \<open>message\<close> (a thrown string, number or plain object); and an object with a
  string \<open>message\<close>, as every \<open>Error\<close> is.  The envelope types its \<open>error\<close> as a
  string, so a \<open>message\<close> of another type has no place in it.
\<close>

datatype thrown = Nullish | NoMessage | ErrorObject Error


text \<open>
  What the functions of this library raise: a value thrown to them and not caught, an
  \<open>Error\<close> of their own wrapped in it, or the \<open>TypeError\<close> of the engine for reading
  \<open>message\<close> of \<open>null\<close> or \<open>undefined\<close> (its text is the engine's).
\<close>

datatype failure = Thrown thrown | TypeError_reading_message

text \<open>
  The outcome of awaiting a promise: it resolves with a value or rejects with a reason.
  For an \<open>async\<close> function, \<open>Rejected\<close> is the function raising.  A promise of the
  platform or of an injected function rejects with any thrown value; a promise of this
  library with a \<open>failure\<close>.
\<close>

datatype ('a, 'e) settled = Resolved 'a | Rejected 'e

type_synonym 'a platform_promise = "('a, thrown) settled"

type_synonym 'a Promise = "('a, failure) settled"

text \<open>A value that may also be \<open>null\<close> or \<open>undefined\<close>.\<close>

datatype 'a nullable = Null | Undefined | Value 'a

text \<open>
  JSON values, for the request payloads.  \<open>JSON.stringify\<close> is a built-in of the
  platform: the accessors below take it as the parameter \<open>stringify\<close>.
\<close>

datatype json =
    JNull
  | JBool bool
  | JNumber int
  | JString string
  | JArray "json list"
  | JObject "(string \<times> json) list"


section \<open>Entities\<close>

text \<open>
  Modelled from the spec: the declarations of \<open>@sudobility/types\<close> are not part of the
  sources.  An entity has an identifier, a slug, a display name and a type that
  distinguishes a personal entity from an organization; \<open>EntityWithRole\<close> adds the
  caller's role.
\<close>

datatype EntityType = PERSONAL | ORGANIZATION

record EntityWithRole =
  id_entity :: string
  entitySlug :: string
  displayName :: string
  entityType :: EntityType
  userRole :: string

text \<open>\<open>findPersonalEntity\<close>: the first entity of personal type, if any.\<close>

definition findPersonalEntity :: "EntityWithRole list \<Rightarrow> EntityWithRole option" where
  "findPersonalEntity entities = List.find (\<lambda>e. entityType e = PERSONAL) entities"

text \<open>
  The \<open>currentEntity\<close> computed at every render of \<open>CurrentEntityProvider\<close>, from
  \<open>isAuthenticated\<close>, the entity list (already defaulted to \<open>[]\<close>) and \<open>selectedSlug\<close>.
\<close>

definition currentEntity ::
  "bool \<Rightarrow> EntityWithRole list \<Rightarrow> string option \<Rightarrow> EntityWithRole option" where
  "currentEntity isAuthenticated entities selectedSlug =
     (if \<not> isAuthenticated \<or> length entities = 0 then None
      else
        (case (case selectedSlug of
                 None \<Rightarrow> None
               | Some slug \<Rightarrow>
                   if slug \<noteq> [] then List.find (\<lambda>e. entitySlug e = slug) entities
                   else None) of
           Some found \<Rightarrow> Some found
         | None \<Rightarrow>
             (case findPersonalEntity entities of
                Some personal \<Rightarrow> Some personal
              | None \<Rightarrow> (case entities of [] \<Rightarrow> None | e # _ \<Rightarrow> Some e))))"

text \<open>
  The resolution priority in the words of the specification: the entity whose slug equals
  the selected slug if the list has one, else the personal entity, else the first entity,
  else nothing.
\<close>

definition resolution_priority ::
  "EntityWithRole list \<Rightarrow> string option \<Rightarrow> EntityWithRole option" where
  "resolution_priority entities selectedSlug =
     (case List.find (\<lambda>e. Some (entitySlug e) = selectedSlug) entities of
        Some e \<Rightarrow> Some e
      | None \<Rightarrow>
          (case List.find (\<lambda>e. entityType e = PERSONAL) entities of
             Some p \<Rightarrow> Some p
           | None \<Rightarrow> (if entities = [] then None else Some (hd entities))))"

text \<open>The entities of the specification's examples, and one with an empty slug.\<close>

definition a_personal :: EntityWithRole where
  "a_personal = \<lparr>id_entity = ''1'', entitySlug = ''a-personal'', displayName = ''Me'',
                  entityType = PERSONAL, userRole = ''owner''\<rparr>"

definition b_org :: EntityWithRole where
  "b_org = \<lparr>id_entity = ''2'', entitySlug = ''b-org'', displayName = ''Org'',
             entityType = ORGANIZATION, userRole = ''member''\<rparr>"

definition blank_org :: EntityWithRole where
  "blank_org = \<lparr>id_entity = ''3'', entitySlug = [], displayName = ''Blank'',
                 entityType = ORGANIZATION, userRole = ''member''\<rparr>"


section \<open>Transport client\<close>

text \<open>\<open>ApiResponse<T>\<close>: the envelope; \<open>data\<close> and \<open>error\<close> are optional fields.\<close>

record 'a ApiResponse =
  success :: bool
  data :: "'a option"
  error :: "string option"

text \<open>
  The part of \<open>RequestInit\<close> the client uses (\<open>method_name\<close> is its field \<open>method\<close>);
  \<open>method_name = None\<close> leaves the verb to
  \<open>fetch\<close>, whose default is \<open>GET\<close>; \<open>headers\<close> is an object from header names to
  values, empty when the caller gives none.
\<close>

record RequestInit =
  method_name :: "string option"
  body :: "string option"
  headers :: "string \<rightharpoonup> string"

definition no_options :: RequestInit where
  "no_options = \<lparr>method_name = None, body = None, headers = Map.empty\<rparr>"

definition verb :: "RequestInit \<Rightarrow> string" where
  "verb init = (case method_name init of None \<Rightarrow> ''GET'' | Some m \<Rightarrow> m)"

text \<open>
  \<open>fetch\<close> is the platform's HTTP call, a parameter of the model: given the URL and the
  init object it rejects (network error) or resolves to a response, whose \<open>json()\<close>
  rejects (the body is not JSON) or resolves to the parsed body.  The parsed body is cast
  to the envelope type without any check, as in the source.  Either rejection may carry
  any thrown value.
\<close>

record 'a Response =
  json :: "'a ApiResponse platform_promise"

type_synonym 'a fetch = "string \<Rightarrow> RequestInit \<Rightarrow> 'a Response platform_promise"

text \<open>One entry per call of \<open>fetch\<close>: the URL and the init object passed.\<close>

type_synonym http_calls = "(string \<times> RequestInit) list"

text \<open>
  \<open>EntityClientConfig\<close>.  \<open>getAuthToken\<close> is called once per request; the model holds
  the outcome of that call.
\<close>

record EntityClientConfig =
  baseUrl :: string
  getAuthToken :: "string option platform_promise"

text \<open>
  The \<open>catch\<close> block of \<open>request\<close>: \<open>return { success: false, error: error.message }\<close>
  for whatever was thrown inside the \<open>try\<close>.  Reading \<open>message\<close> of \<open>null\<close> or
  \<open>undefined\<close> throws inside the block, and nothing catches that.
\<close>

fun request_catch :: "thrown \<Rightarrow> 'a ApiResponse Promise" where
  "request_catch Nullish = Rejected TypeError_reading_message"
| "request_catch NoMessage = Resolved \<lparr>success = False, data = None, error = None\<rparr>"
| "request_catch (ErrorObject e) =
     Resolved \<lparr>success = False, data = None, error = Some (message e)\<rparr>"

text \<open>
  \<open>EntityClient.request\<close>.  The result pairs what the \<open>async\<close> function settles to
  with the calls of \<open>fetch\<close> it made.  The token is awaited outside the \<open>try\<close> block;
  \<open>fetch\<close> and \<open>response.json()\<close> are inside it.
\<close>

definition request ::
  "EntityClientConfig \<Rightarrow> 'a fetch \<Rightarrow> string \<Rightarrow> RequestInit
     \<Rightarrow> 'a ApiResponse Promise \<times> http_calls" where
  "request config fetch path options =
     (case getAuthToken config of
        Rejected e \<Rightarrow> (Rejected (Thrown e), [])
      | Resolved token \<Rightarrow>
          (case token of
             None \<Rightarrow>
               (Resolved \<lparr>success = False, data = None, error = Some ''Not authenticated''\<rparr>, [])
           | Some t \<Rightarrow>
               if t = [] then
                 (Resolved \<lparr>success = False, data = None, error = Some ''Not authenticated''\<rparr>, [])
               else
                 (let url = baseUrl config @ path;
                      hdrs = [''Content-Type'' \<mapsto> ''application/json'',
                              ''Authorization'' \<mapsto> ''Bearer '' @ t] ++ headers options;
                      init = options\<lparr>headers := hdrs\<rparr>
                  in ((case fetch url init of
                         Rejected e \<Rightarrow> request_catch e
                       | Resolved response \<Rightarrow>
                           (case json response of
                              Rejected e \<Rightarrow> request_catch e
                            | Resolved d \<Rightarrow> Resolved d)),
                      [(url, init)]))))"



subsection \<open>Resource accessors\<close>

definition listEntities ::
  "EntityClientConfig \<Rightarrow> 'a fetch \<Rightarrow> 'a ApiResponse Promise \<times> http_calls" where
  "listEntities config fetch = request config fetch ''/entities'' no_options"

definition createEntity ::
  "EntityClientConfig \<Rightarrow> 'a fetch \<Rightarrow> (json \<Rightarrow> string) \<Rightarrow> json \<Rightarrow> 'a ApiResponse Promise \<times> http_calls" where
  "createEntity config fetch stringify req =
     request config fetch ''/entities''
       \<lparr>method_name = Some ''POST'', body = Some (stringify req), headers = Map.empty\<rparr>"

definition getEntity ::
  "EntityClientConfig \<Rightarrow> 'a fetch \<Rightarrow> string \<Rightarrow> 'a ApiResponse Promise \<times> http_calls" where
  "getEntity config fetch entitySlug' =
     request config fetch (''/entities/'' @ entitySlug') no_options"

definition updateEntity ::
  "EntityClientConfig \<Rightarrow> 'a fetch \<Rightarrow> (json \<Rightarrow> string) \<Rightarrow> string \<Rightarrow> json \<Rightarrow> 'a ApiResponse Promise \<times> http_calls" where
  "updateEntity config fetch stringify entitySlug' req =
     request config fetch (''/entities/'' @ entitySlug')
       \<lparr>method_name = Some ''PUT'', body = Some (stringify req), headers = Map.empty\<rparr>"

definition deleteEntity ::
  "EntityClientConfig \<Rightarrow> 'a fetch \<Rightarrow> string \<Rightarrow> 'a ApiResponse Promise \<times> http_calls" where
  "deleteEntity config fetch entitySlug' =
     request config fetch (''/entities/'' @ entitySlug')
       \<lparr>method_name = Some ''DELETE'', body = None, headers = Map.empty\<rparr>"

definition listMembers ::
  "EntityClientConfig \<Rightarrow> 'a fetch \<Rightarrow> string \<Rightarrow> 'a ApiResponse Promise \<times> http_calls" where
  "listMembers config fetch entitySlug' =
     request config fetch (''/entities/'' @ entitySlug' @ ''/members'') no_options"

definition updateMemberRole ::
  "EntityClientConfig \<Rightarrow> 'a fetch \<Rightarrow> (json \<Rightarrow> string) \<Rightarrow> string \<Rightarrow> string \<Rightarrow> json
     \<Rightarrow> 'a ApiResponse Promise \<times> http_calls" where
  "updateMemberRole config fetch stringify entitySlug' memberId role =
     request config fetch (''/entities/'' @ entitySlug' @ ''/members/'' @ memberId)
       \<lparr>method_name = Some ''PUT'', body = Some (stringify (JObject [(''role'', role)])),
        headers = Map.empty\<rparr>"

definition removeMember ::
  "EntityClientConfig \<Rightarrow> 'a fetch \<Rightarrow> string \<Rightarrow> string \<Rightarrow> 'a ApiResponse Promise \<times> http_calls" where
  "removeMember config fetch entitySlug' memberId =
     request config fetch (''/entities/'' @ entitySlug' @ ''/members/'' @ memberId)
       \<lparr>method_name = Some ''DELETE'', body = None, headers = Map.empty\<rparr>"

definition listEntityInvitations ::
  "EntityClientConfig \<Rightarrow> 'a fetch \<Rightarrow> string \<Rightarrow> 'a ApiResponse Promise \<times> http_calls" where
  "listEntityInvitations config fetch entitySlug' =
     request config fetch (''/entities/'' @ entitySlug' @ ''/invitations'') no_options"

definition createInvitation ::
  "EntityClientConfig \<Rightarrow> 'a fetch \<Rightarrow> (json \<Rightarrow> string) \<Rightarrow> string \<Rightarrow> json \<Rightarrow> 'a ApiResponse Promise \<times> http_calls" where
  "createInvitation config fetch stringify entitySlug' req =
     request config fetch (''/entities/'' @ entitySlug' @ ''/invitations'')
       \<lparr>method_name = Some ''POST'', body = Some (stringify req), headers = Map.empty\<rparr>"

definition cancelInvitation ::
  "EntityClientConfig \<Rightarrow> 'a fetch \<Rightarrow> string \<Rightarrow> string \<Rightarrow> 'a ApiResponse Promise \<times> http_calls" where
  "cancelInvitation config fetch entitySlug' invitationId =
     request config fetch (''/entities/'' @ entitySlug' @ ''/invitations/'' @ invitationId)
       \<lparr>method_name = Some ''DELETE'', body = None, headers = Map.empty\<rparr>"

definition listMyInvitations ::
  "EntityClientConfig \<Rightarrow> 'a fetch \<Rightarrow> 'a ApiResponse Promise \<times> http_calls" where
  "listMyInvitations config fetch = request config fetch ''/invitations'' no_options"

definition acceptInvitation ::
  "EntityClientConfig \<Rightarrow> 'a fetch \<Rightarrow> string \<Rightarrow> 'a ApiResponse Promise \<times> http_calls" where
  "acceptInvitation config fetch token =
     request config fetch (''/invitations/'' @ token @ ''/accept'')
       \<lparr>method_name = Some ''POST'', body = None, headers = Map.empty\<rparr>"

definition declineInvitation ::
  "EntityClientConfig \<Rightarrow> 'a fetch \<Rightarrow> string \<Rightarrow> 'a ApiResponse Promise \<times> http_calls" where
  "declineInvitation config fetch token =
     request config fetch (''/invitations/'' @ token @ ''/decline'')
       \<lparr>method_name = Some ''POST'', body = None, headers = Map.empty\<rparr>"

text \<open>
  The fourteen operations with their arguments, and the accessor each one names.  The
  request payloads and the role are JSON values.
\<close>

datatype operation =
    ListEntities
  | CreateEntity json
  | GetEntity string
  | UpdateEntity string json
  | DeleteEntity string
  | ListMembers string
  | UpdateMemberRole string string json
  | RemoveMember string string
  | ListEntityInvitations string
  | CreateInvitation string json
  | CancelInvitation string string
  | ListMyInvitations
  | AcceptInvitation string
  | DeclineInvitation string

fun call ::
  "EntityClientConfig \<Rightarrow> 'a fetch \<Rightarrow> (json \<Rightarrow> string) \<Rightarrow> operation
     \<Rightarrow> 'a ApiResponse Promise \<times> http_calls" where
  "call c f js ListEntities = listEntities c f"
| "call c f js (CreateEntity req) = createEntity c f js req"
| "call c f js (GetEntity slug) = getEntity c f slug"
| "call c f js (UpdateEntity slug req) = updateEntity c f js slug req"
| "call c f js (DeleteEntity slug) = deleteEntity c f slug"
| "call c f js (ListMembers slug) = listMembers c f slug"
| "call c f js (UpdateMemberRole slug memberId role) = updateMemberRole c f js slug memberId role"
| "call c f js (RemoveMember slug memberId) = removeMember c f slug memberId"
| "call c f js (ListEntityInvitations slug) = listEntityInvitations c f slug"
| "call c f js (CreateInvitation slug req) = createInvitation c f js slug req"
| "call c f js (CancelInvitation slug invitationId) = cancelInvitation c f slug invitationId"
| "call c f js ListMyInvitations = listMyInvitations c f"
| "call c f js (AcceptInvitation token) = acceptInvitation c f token"
| "call c f js (DeclineInvitation token) = declineInvitation c f token"

text \<open>
  The endpoint map of the specification (section 4.2), row by row: the path and the verb
  of every operation.
\<close>

fun endpoint_path :: "operation \<Rightarrow> string" where
  "endpoint_path ListEntities = ''/entities''"
| "endpoint_path (CreateEntity req) = ''/entities''"
| "endpoint_path (GetEntity slug) = ''/entities/'' @ slug"
| "endpoint_path (UpdateEntity slug req) = ''/entities/'' @ slug"
| "endpoint_path (DeleteEntity slug) = ''/entities/'' @ slug"
| "endpoint_path (ListMembers slug) = ''/entities/'' @ slug @ ''/members''"
| "endpoint_path (UpdateMemberRole slug i role) = ''/entities/'' @ slug @ ''/members/'' @ i"
| "endpoint_path (RemoveMember slug i) = ''/entities/'' @ slug @ ''/members/'' @ i"
| "endpoint_path (ListEntityInvitations slug) = ''/entities/'' @ slug @ ''/invitations''"
| "endpoint_path (CreateInvitation slug req) = ''/entities/'' @ slug @ ''/invitations''"
| "endpoint_path (CancelInvitation slug i) = ''/entities/'' @ slug @ ''/invitations/'' @ i"
| "endpoint_path ListMyInvitations = ''/invitations''"
| "endpoint_path (AcceptInvitation token) = ''/invitations/'' @ token @ ''/accept''"
| "endpoint_path (DeclineInvitation token) = ''/invitations/'' @ token @ ''/decline''"

fun endpoint_verb :: "operation \<Rightarrow> string" where
  "endpoint_verb ListEntities = ''GET''"
| "endpoint_verb (CreateEntity req) = ''POST''"
| "endpoint_verb (GetEntity slug) = ''GET''"
| "endpoint_verb (UpdateEntity slug req) = ''PUT''"
| "endpoint_verb (DeleteEntity slug) = ''DELETE''"
| "endpoint_verb (ListMembers slug) = ''GET''"
| "endpoint_verb (UpdateMemberRole slug i role) = ''PUT''"
| "endpoint_verb (RemoveMember slug i) = ''DELETE''"
| "endpoint_verb (ListEntityInvitations slug) = ''GET''"
| "endpoint_verb (CreateInvitation slug req) = ''POST''"
| "endpoint_verb (CancelInvitation slug i) = ''DELETE''"
| "endpoint_verb ListMyInvitations = ''GET''"
| "endpoint_verb (AcceptInvitation token) = ''POST''"
| "endpoint_verb (DeclineInvitation token) = ''POST''"

text \<open>A write operation is one whose verb is not \<open>GET\<close>.\<close>

definition is_write :: "operation \<Rightarrow> bool" where
  "is_write op = (endpoint_verb op \<noteq> ''GET'')"

text \<open>
  The payload an operation serialises into its body: the request object of create entity,
  update entity and create invitation, the object \<open>{role}\<close> of update member role, and
  none for the other ten.
\<close>

fun payload :: "operation \<Rightarrow> json option" where
  "payload (CreateEntity req) = Some req"
| "payload (UpdateEntity slug req) = Some req"
| "payload (UpdateMemberRole slug i role) = Some (JObject [(''role'', role)])"
| "payload (CreateInvitation slug req) = Some req"
| "payload _ = None"

text \<open>The URLs, verbs and bodies of the requests issued, in order.\<close>

definition urls :: "http_calls \<Rightarrow> string list" where
  "urls calls = map fst calls"

definition verbs :: "http_calls \<Rightarrow> string list" where
  "verbs calls = map (\<lambda>c. verb (snd c)) calls"

definition bodies :: "http_calls \<Rightarrow> string option list" where
  "bodies calls = map (\<lambda>c. body (snd c)) calls"

text \<open>A configuration and platform functions for the concrete runs below.\<close>

definition example_config :: EntityClientConfig where
  "example_config =
     \<lparr>baseUrl = ''https://api.example.com/api/v1'',
      getAuthToken = Resolved (Some ''mock-auth-token'')\<rparr>"


definition signed_out_config :: EntityClientConfig where
  "signed_out_config =
     \<lparr>baseUrl = ''https://api.example.com/api/v1'', getAuthToken = Resolved None\<rparr>"

definition offline_fetch :: "'a fetch" where
  "offline_fetch url init = Rejected (ErrorObject (Error ''Network error''))"




definition ok_fetch :: "'a fetch" where
  "ok_fetch url init =
     Resolved \<lparr>json = Resolved \<lparr>success = True, data = None, error = None\<rparr>\<rparr>"

definition sample_stringify :: "json \<Rightarrow> string" where
  "sample_stringify j = (case j of JObject _ \<Rightarrow> ''{...}'' | _ \<Rightarrow> ''...'')"


section \<open>Cache keys\<close>

text \<open>
  A query key is an array of strings.  \<open>entityKeys\<close>, \<open>memberKeys\<close> and
  \<open>invitationKeys\<close>, member by member; the spread \<open>[...k, x]\<close> is \<open>k @ [x]\<close>.
\<close>

type_synonym query_key = "string list"

definition entityKeys_all :: query_key where
  "entityKeys_all = [''entities'']"

definition entityKeys_lists :: query_key where
  "entityKeys_lists = entityKeys_all @ [''list'']"

definition entityKeys_list :: query_key where
  "entityKeys_list = entityKeys_lists @ []"

definition entityKeys_details :: query_key where
  "entityKeys_details = entityKeys_all @ [''detail'']"

definition entityKeys_detail :: "string \<Rightarrow> query_key" where
  "entityKeys_detail slug = entityKeys_details @ [slug]"

definition memberKeys_all :: "string \<Rightarrow> query_key" where
  "memberKeys_all slug = entityKeys_detail slug @ [''members'']"

definition memberKeys_list :: "string \<Rightarrow> query_key" where
  "memberKeys_list slug = memberKeys_all slug @ [''list'']"

definition invitationKeys_all :: query_key where
  "invitationKeys_all = [''invitations'']"

definition invitationKeys_myList :: query_key where
  "invitationKeys_myList = invitationKeys_all @ [''my'']"

definition invitationKeys_entityList :: "string \<Rightarrow> query_key" where
  "invitationKeys_entityList slug = entityKeys_detail slug @ [''invitations'']"

text \<open>A builder together with its argument, and the key it builds.\<close>

datatype key_builder =
    EntityAll
  | EntityLists
  | EntityList
  | EntityDetails
  | EntityDetail string
  | MemberAll string
  | MemberList string
  | InvitationAll
  | InvitationMyList
  | InvitationEntityList string

fun key_of :: "key_builder \<Rightarrow> query_key" where
  "key_of EntityAll = entityKeys_all"
| "key_of EntityLists = entityKeys_lists"
| "key_of EntityList = entityKeys_list"
| "key_of EntityDetails = entityKeys_details"
| "key_of (EntityDetail slug) = entityKeys_detail slug"
| "key_of (MemberAll slug) = memberKeys_all slug"
| "key_of (MemberList slug) = memberKeys_list slug"
| "key_of InvitationAll = invitationKeys_all"
| "key_of InvitationMyList = invitationKeys_myList"
| "key_of (InvitationEntityList slug) = invitationKeys_entityList slug"

text \<open>
  The tree of namespaces the keys are to form: \<open>entities\<close> with the children \<open>list\<close>
  (built by \<open>lists()\<close> and by \<open>list()\<close>) and \<open>detail\<close>; under \<open>detail\<close> one node per
  slug, with the children \<open>members\<close> (whose child is \<open>list\<close>) and \<open>invitations\<close>; and
  the second root \<open>invitations\<close> with the child \<open>my\<close>.  \<open>parent\<close> is the node above a
  builder's, \<open>segment\<close> the last element of its key, and \<open>namespace_path\<close> lists the
  builders on the way from the root to it, with the second builder of its own node if
  there is one.
\<close>

fun parent :: "key_builder \<Rightarrow> key_builder option" where
  "parent EntityAll = None"
| "parent EntityLists = Some EntityAll"
| "parent EntityList = Some EntityAll"
| "parent EntityDetails = Some EntityAll"
| "parent (EntityDetail slug) = Some EntityDetails"
| "parent (MemberAll slug) = Some (EntityDetail slug)"
| "parent (MemberList slug) = Some (MemberAll slug)"
| "parent InvitationAll = None"
| "parent InvitationMyList = Some InvitationAll"
| "parent (InvitationEntityList slug) = Some (EntityDetail slug)"

fun segment :: "key_builder \<Rightarrow> string" where
  "segment EntityAll = ''entities''"
| "segment EntityLists = ''list''"
| "segment EntityList = ''list''"
| "segment EntityDetails = ''detail''"
| "segment (EntityDetail slug) = slug"
| "segment (MemberAll slug) = ''members''"
| "segment (MemberList slug) = ''list''"
| "segment InvitationAll = ''invitations''"
| "segment InvitationMyList = ''my''"
| "segment (InvitationEntityList slug) = ''invitations''"

fun namespace_path :: "key_builder \<Rightarrow> key_builder list" where
  "namespace_path EntityAll = [EntityAll]"
| "namespace_path EntityLists = [EntityAll, EntityLists, EntityList]"
| "namespace_path EntityList = [EntityAll, EntityLists, EntityList]"
| "namespace_path EntityDetails = [EntityAll, EntityDetails]"
| "namespace_path (EntityDetail slug) = [EntityAll, EntityDetails, EntityDetail slug]"
| "namespace_path (MemberAll slug) =
     [EntityAll, EntityDetails, EntityDetail slug, MemberAll slug]"
| "namespace_path (MemberList slug) =
     [EntityAll, EntityDetails, EntityDetail slug, MemberAll slug, MemberList slug]"
| "namespace_path InvitationAll = [InvitationAll]"
| "namespace_path InvitationMyList = [InvitationAll, InvitationMyList]"
| "namespace_path (InvitationEntityList slug) =
     [EntityAll, EntityDetails, EntityDetail slug, InvitationEntityList slug]"

text \<open>
  \<open>invalidateQueries({queryKey: k})\<close> of the cache engine marks every query whose key
  starts with \<open>k\<close>: a key is the namespace of the keys it is a prefix of.
\<close>

definition invalidates :: "query_key \<Rightarrow> query_key \<Rightarrow> bool" where
  "invalidates k key = prefix k key"


section \<open>Query and mutation bindings\<close>

text \<open>
  What a hook hands to \<open>useQuery\<close>: the key, the \<open>enabled\<close> flag, and the query
  function, held as what it settles to together with the calls of \<open>fetch\<close> it makes.
\<close>

record 'r query_options =
  queryKey :: query_key
  queryFn :: "'r Promise \<times> http_calls"
  enabled :: bool

definition useEntity ::
  "EntityClientConfig \<Rightarrow> 'a fetch \<Rightarrow> string option \<Rightarrow> 'a nullable query_options" where
  "useEntity config fetch entitySlug' =
     \<lparr>queryKey =
        (case entitySlug' of
           None \<Rightarrow> [''disabled'']
         | Some slug \<Rightarrow> if slug \<noteq> [] then entityKeys_detail slug else [''disabled'']),
      queryFn =
        (case entitySlug' of
           None \<Rightarrow> (Resolved Null, [])
         | Some slug \<Rightarrow>
             if slug = [] then (Resolved Null, [])
             else
               (case getEntity config fetch slug of
                  (Rejected e, calls) \<Rightarrow> (Rejected e, calls)
                | (Resolved response, calls) \<Rightarrow>
                    if \<not> success response then
                      (Rejected (Thrown (ErrorObject (Error (or_default (error response)
                                          ''Failed to fetch entity'')))), calls)
                    else
                      (Resolved (case data response of None \<Rightarrow> Undefined | Some d \<Rightarrow> Value d),
                       calls))),
      enabled = truthy entitySlug'\<rparr>"

definition useEntityMembers ::
  "EntityClientConfig \<Rightarrow> 'a list fetch \<Rightarrow> string option \<Rightarrow> 'a list query_options" where
  "useEntityMembers config fetch entitySlug' =
     \<lparr>queryKey =
        (case entitySlug' of
           None \<Rightarrow> [''disabled'']
         | Some slug \<Rightarrow> if slug \<noteq> [] then memberKeys_list slug else [''disabled'']),
      queryFn =
        (case entitySlug' of
           None \<Rightarrow> (Resolved [], [])
         | Some slug \<Rightarrow>
             if slug = [] then (Resolved [], [])
             else
               (case listMembers config fetch slug of
                  (Rejected e, calls) \<Rightarrow> (Rejected e, calls)
                | (Resolved response, calls) \<Rightarrow>
                    if \<not> success response then
                      (Rejected (Thrown (ErrorObject (Error (or_default (error response)
                                          ''Failed to fetch members'')))), calls)
                    else
                      (case data response of
                         None \<Rightarrow>
                           (Rejected (Thrown (ErrorObject (Error (or_default (error response)
                                               ''Failed to fetch members'')))), calls)
                       | Some d \<Rightarrow> (Resolved d, calls)))),
      enabled = truthy entitySlug'\<rparr>"

definition useEntityInvitations ::
  "EntityClientConfig \<Rightarrow> 'a list fetch \<Rightarrow> string option
     \<Rightarrow> 'a list nullable query_options" where
  "useEntityInvitations config fetch entitySlug' =
     \<lparr>queryKey =
        (case entitySlug' of
           None \<Rightarrow> [''disabled'']
         | Some slug \<Rightarrow>
             if slug \<noteq> [] then invitationKeys_entityList slug else [''disabled'']),
      queryFn =
        (case entitySlug' of
           None \<Rightarrow> (Resolved (Value []), [])
         | Some slug \<Rightarrow>
             if slug = [] then (Resolved (Value []), [])
             else
               (case listEntityInvitations config fetch slug of
                  (Rejected e, calls) \<Rightarrow> (Rejected e, calls)
                | (Resolved response, calls) \<Rightarrow>
                    if \<not> success response then
                      (Rejected (Thrown (ErrorObject (Error (or_default (error response)
                                          ''Failed to fetch invitations'')))), calls)
                    else
                      (Resolved (case data response of None \<Rightarrow> Undefined | Some d \<Rightarrow> Value d),
                       calls))),
      enabled = truthy entitySlug'\<rparr>"

text \<open>
  \<open>useAcceptInvitation\<close>: the mutation function, the keys its \<open>onSuccess\<close> passes to
  \<open>invalidateQueries\<close> (in order), and one run of the mutation: \<open>onSuccess\<close> runs only
  when the mutation function resolves.  The run returns what the mutation settles to, the
  calls of \<open>fetch\<close> and the keys invalidated.
\<close>

definition useAcceptInvitation_mutationFn ::
  "EntityClientConfig \<Rightarrow> 'a fetch \<Rightarrow> string \<Rightarrow> unit Promise \<times> http_calls" where
  "useAcceptInvitation_mutationFn config fetch token =
     (case acceptInvitation config fetch token of
        (Rejected e, calls) \<Rightarrow> (Rejected e, calls)
      | (Resolved response, calls) \<Rightarrow>
          if \<not> success response then
            (Rejected (Thrown (ErrorObject (Error (or_default (error response)
                                ''Failed to accept invitation'')))), calls)
          else (Resolved (), calls))"

definition useAcceptInvitation_onSuccess :: "query_key list" where
  "useAcceptInvitation_onSuccess = [invitationKeys_myList, entityKeys_lists]"

definition useAcceptInvitation ::
  "EntityClientConfig \<Rightarrow> 'a fetch \<Rightarrow> string \<Rightarrow> unit Promise \<times> http_calls \<times> query_key list" where
  "useAcceptInvitation config fetch token =
     (case useAcceptInvitation_mutationFn config fetch token of
        (Rejected e, calls) \<Rightarrow> (Rejected e, calls, [])
      | (Resolved v, calls) \<Rightarrow> (Resolved v, calls, useAcceptInvitation_onSuccess))"


section \<open>Current-selection controller\<close>

text \<open>\<open>AuthUser\<close>, the minimal user the provider is given (\<open>null\<close> when signed out).\<close>

record AuthUser =
  uid :: string
  email :: "string option"

definition STORAGE_KEY :: string where
  "STORAGE_KEY = ''currentEntitySlug''"

text \<open>
  The state \<open>CurrentEntityProvider\<close> keeps between renders: the two \<open>useState\<close> cells,
  the \<open>previousUserUid\<close> ref, and \<open>localStorage\<close>, which is \<open>None\<close> where \<open>window\<close>
  is undefined (every access in the source is guarded by that test).  \<open>refetchCalls\<close>
  counts the calls of the query's \<open>refetch\<close>.
\<close>

record provider_state =
  selectedSlug :: "string option"
  isInitialized :: bool
  previousUserUid :: "string option"
  localStorage :: "(string \<rightharpoonup> string) option"
  refetchCalls :: nat

definition removeItem :: "string \<Rightarrow> (string \<rightharpoonup> string) option \<Rightarrow> (string \<rightharpoonup> string) option" where
  "removeItem k storage = (case storage of None \<Rightarrow> None | Some m \<Rightarrow> Some (m(k := None)))"

definition setItem ::
  "string \<Rightarrow> string \<Rightarrow> (string \<rightharpoonup> string) option \<Rightarrow> (string \<rightharpoonup> string) option" where
  "setItem k v storage = (case storage of None \<Rightarrow> None | Some m \<Rightarrow> Some (m(k \<mapsto> v)))"

text \<open>What is persisted under a key: nothing where there is no storage.\<close>

definition persisted :: "string \<Rightarrow> provider_state \<Rightarrow> string option" where
  "persisted k s = (case localStorage s of None \<Rightarrow> None | Some m \<Rightarrow> m k)"

text \<open>The effect on user changes (login and logout), run with the rendered \<open>user\<close>.\<close>

definition userEffect :: "AuthUser option \<Rightarrow> provider_state \<Rightarrow> provider_state" where
  "userEffect user s =
     (let currentUid = (case user of None \<Rightarrow> None | Some u \<Rightarrow> Some (uid u));
          s1 = (if truthy currentUid \<and> currentUid \<noteq> previousUserUid s
                then s\<lparr>refetchCalls := Suc (refetchCalls s)\<rparr> else s);
          s2 = (if \<not> truthy currentUid \<and> truthy (previousUserUid s1)
                then s1\<lparr>selectedSlug := None, isInitialized := False,
                        localStorage := removeItem STORAGE_KEY (localStorage s1)\<rparr>
                else s1)
      in s2\<lparr>previousUserUid := currentUid\<rparr>)"

text \<open>The effect that persists the selection and marks the provider initialized.\<close>

definition persistEffect ::
  "bool \<Rightarrow> EntityWithRole option \<Rightarrow> bool \<Rightarrow> provider_state \<Rightarrow> provider_state" where
  "persistEffect isAuthenticated current isEntitiesLoading s =
     (if \<not> isAuthenticated then s
      else
        (let s1 = (case current of
                     None \<Rightarrow> s
                   | Some e \<Rightarrow>
                       s\<lparr>localStorage := setItem STORAGE_KEY (entitySlug e) (localStorage s)\<rparr>)
         in if \<not> isEntitiesLoading \<and> isAuthenticated then s1\<lparr>isInitialized := True\<rparr>
            else s1))"

text \<open>
  The effect that auto-selects an entity.  \<open>rendered\<close> is the \<open>selectedSlug\<close> of the
  render the effect belongs to.
\<close>

definition autoSelectEffect ::
  "bool \<Rightarrow> bool \<Rightarrow> EntityWithRole list \<Rightarrow> string option \<Rightarrow> provider_state
     \<Rightarrow> provider_state" where
  "autoSelectEffect isAuthenticated isEntitiesLoading entities rendered s =
     (if \<not> isAuthenticated \<or> isEntitiesLoading \<or> length entities = 0 then s
      else if \<not> truthy rendered
              \<or> (case rendered of
                    None \<Rightarrow> True
                  | Some slug \<Rightarrow> List.find (\<lambda>e. entitySlug e = slug) entities = None)
      then (case findPersonalEntity entities of
              Some personal \<Rightarrow> s\<lparr>selectedSlug := Some (entitySlug personal)\<rparr>
            | None \<Rightarrow>
                (case entities of
                   [] \<Rightarrow> s
                 | e # _ \<Rightarrow> s\<lparr>selectedSlug := Some (entitySlug e)\<rparr>))
      else s)"


text \<open>
  One commit: the effects of a render, in the order the component declares them.  All of
  them read the values of that render (\<open>user\<close>, the entity list, the loading flag and
  the rendered \<open>selectedSlug\<close>); the flags say whether the second and third effect run in
  this commit (the first runs whenever the user's uid changes).
\<close>

definition commit ::
  "AuthUser option \<Rightarrow> EntityWithRole list \<Rightarrow> bool \<Rightarrow> bool \<Rightarrow> bool
     \<Rightarrow> provider_state \<Rightarrow> provider_state" where
  "commit user entities isEntitiesLoading runPersist runAutoSelect s =
     (let isAuthenticated = (user \<noteq> None);
          current = currentEntity isAuthenticated entities (selectedSlug s);
          s1 = userEffect user s;
          s2 = (if runPersist
                then persistEffect isAuthenticated current isEntitiesLoading s1 else s1);
          s3 = (if runAutoSelect
                then autoSelectEffect isAuthenticated isEntitiesLoading entities
                       (selectedSlug s) s2
                else s2)
      in s3)"



section \<open>Access to the context\<close>

text \<open>
  \<open>useContext\<close> gives the value of the nearest enclosing provider, and the default of
  the context, \<open>null\<close>, when there is none.  \<open>providers\<close> lists the values of the
  enclosing providers, nearest first.
\<close>

definition useContext :: "'v list \<Rightarrow> 'v option" where
  "useContext providers = (case providers of [] \<Rightarrow> None | v # _ \<Rightarrow> Some v)"

definition useCurrentEntity :: "'v list \<Rightarrow> Error + 'v" where
  "useCurrentEntity providers =
     (case useContext providers of
        None \<Rightarrow> Inl (Error ''useCurrentEntity must be used within CurrentEntityProvider'')
      | Some context \<Rightarrow> Inr context)"

definition useCurrentEntityOptional :: "'v list \<Rightarrow> 'v option" where
  "useCurrentEntityOptional providers = useContext providers"


section \<open>Resolution of the current entity\<close>

lemma find_never: "List.find (\<lambda>e. False) xs = None"
  by (induction xs) simp_all

lemma first_or_none:
  "(case entities of [] \<Rightarrow> None | e # _ \<Rightarrow> Some e)
     = (if entities = [] then None else Some (hd entities))"
  by (cases entities) simp_all

text \<open>
  Claim C1, as amended.  For an authenticated user and every entity list, the current
  entity follows the stated priority (the first entity whose slug equals the selected
  slug, else the first personal entity, else the first entity, else none), where an empty
  selected slug counts as no selection: the source guards the lookup by \<open>if
  (selectedSlug)\<close>, and the empty string is falsy.
\<close>

theorem currentEntity_priority:
  "currentEntity True entities sel
     = resolution_priority entities (if sel = Some [] then None else sel)"
proof (cases sel)
  case None
  then show ?thesis
    by (simp add: currentEntity_def resolution_priority_def findPersonalEntity_def
        find_never first_or_none split: option.splits)
next
  case (Some slug)
  then show ?thesis
    by (cases "slug = []")
       (simp_all add: currentEntity_def resolution_priority_def findPersonalEntity_def
         find_never first_or_none split: option.splits)
qed

text \<open>
  The examples of the specification: a persisted selection still in the list wins over the
  personal entity, a stale one falls back to the personal entity, and without a personal
  entity the first entity is taken.
\<close>

theorem currentEntity_priority_witness:
  "currentEntity True [a_personal, b_org] (Some ''b-org'') = Some b_org
   \<and> currentEntity True [a_personal, b_org] (Some ''stale-slug'') = Some a_personal
   \<and> currentEntity True [a_personal, b_org] None = Some a_personal
   \<and> currentEntity True [b_org] None = Some b_org
   \<and> currentEntity True [] (Some ''b-org'') = None"
  using currentEntity_priority [of "[a_personal, b_org]" "Some ''b-org''"]
    currentEntity_priority [of "[a_personal, b_org]" "Some ''stale-slug''"]
    currentEntity_priority [of "[a_personal, b_org]" None]
    currentEntity_priority [of "[b_org]" None]
    currentEntity_priority [of "[]" "Some ''b-org''"]
  by (simp add: resolution_priority_def a_personal_def b_org_def)

text \<open>
  The priority as the specification words it fails for the empty slug: with the selection
  \<open>""\<close> (set by \<open>selectEntity("")\<close>, or by \<open>selectEntityById\<close> on an entity whose slug
  is empty) and an entity of that slug in the list, the stated priority gives that entity,
  and the provider resolves the personal entity.
\<close>

theorem currentEntity_empty_slug_counterexample:
  "currentEntity True [a_personal, blank_org] (Some []) = Some a_personal
   \<and> resolution_priority [a_personal, blank_org] (Some []) = Some blank_org
   \<and> a_personal \<noteq> blank_org"
  by (simp add: currentEntity_def resolution_priority_def findPersonalEntity_def
      a_personal_def blank_org_def)

text \<open>
  Claim C6.  Whatever the authentication state, the list and the selection, the current
  entity is null or an element of the entity list it was resolved from.
\<close>

theorem currentEntity_in_list:
  "currentEntity isAuthenticated entities sel = Some e \<Longrightarrow> e \<in> set entities"
  by (auto simp: currentEntity_def findPersonalEntity_def find_Some_iff
      split: if_splits option.splits list.splits)

theorem currentEntity_in_list_witness:
  "currentEntity True [a_personal, b_org] (Some ''b-org'') = Some b_org
   \<and> b_org \<in> set [a_personal, b_org]"
  using currentEntity_in_list [of True "[a_personal, b_org]" "Some ''b-org''" b_org]
  by (simp add: currentEntity_def a_personal_def b_org_def)


section \<open>The transport client returns envelopes\<close>

lemmas accessor_defs =
  listEntities_def createEntity_def getEntity_def updateEntity_def deleteEntity_def
  listMembers_def updateMemberRole_def removeMember_def listEntityInvitations_def
  createInvitation_def cancelInvitation_def listMyInvitations_def acceptInvitation_def
  declineInvitation_def

lemma request_no_token:
  "getAuthToken config = Resolved None \<Longrightarrow>
   request config fetch path options =
     (Resolved \<lparr>success = False, data = None, error = Some ''Not authenticated''\<rparr>, [])"
  by (simp add: request_def)

lemma request_with_token:
  "getAuthToken config = Resolved (Some t) \<Longrightarrow> t \<noteq> [] \<Longrightarrow>
   request config fetch path options =
     ((case fetch (baseUrl config @ path)
              (options\<lparr>headers := [''Content-Type'' \<mapsto> ''application/json'',
                                   ''Authorization'' \<mapsto> ''Bearer '' @ t] ++ headers options\<rparr>) of
         Rejected e \<Rightarrow> request_catch e
       | Resolved response \<Rightarrow>
           (case json response of
              Rejected e \<Rightarrow> request_catch e
            | Resolved d \<Rightarrow> Resolved d)),
      [(baseUrl config @ path,
        options\<lparr>headers := [''Content-Type'' \<mapsto> ''application/json'',
                             ''Authorization'' \<mapsto> ''Bearer '' @ t] ++ headers options\<rparr>)])"
  by (simp add: request_def Let_def)

text \<open>
  Claim C2.  When \<open>getAuthToken\<close> resolves to \<open>null\<close>, \<open>request\<close>, and with it each of
  the fourteen accessors, returns exactly \<open>{success: false, error: "Not authenticated"}\<close>
  and \<open>fetch\<close> is not called.
\<close>

theorem not_authenticated:
  assumes "getAuthToken config = Resolved None"
  shows "request config fetch path options =
           (Resolved \<lparr>success = False, data = None, error = Some ''Not authenticated''\<rparr>, [])
         \<and> call config fetch stringify op =
           (Resolved \<lparr>success = False, data = None, error = Some ''Not authenticated''\<rparr>, [])"
  using assms by (cases op) (simp_all add: accessor_defs request_no_token)

theorem not_authenticated_witness:
  "getAuthToken signed_out_config = Resolved None
   \<and> request signed_out_config (ok_fetch :: json fetch) ''/entities'' no_options =
       (Resolved \<lparr>success = False, data = None, error = Some ''Not authenticated''\<rparr>, [])
   \<and> call signed_out_config (ok_fetch :: json fetch) sample_stringify (DeleteEntity ''abc12345'') =
       (Resolved \<lparr>success = False, data = None, error = Some ''Not authenticated''\<rparr>, [])"
  using not_authenticated [of signed_out_config "ok_fetch :: json fetch" "''/entities''"
      no_options sample_stringify "DeleteEntity ''abc12345''"]
  by (simp add: signed_out_config_def)








section \<open>The requests of the resource accessors\<close>

text \<open>
  Claim C4, as amended.  With a non-empty token, each of the fourteen accessors issues
  exactly one request: to the base URL followed by the path of the endpoint map, with the
  verb of the endpoint map, the headers \<open>Authorization: Bearer <token>\<close> and
  \<open>Content-Type: application/json\<close>, and a body that is the serialized request object
  for create entity, update entity and create invitation, the serialized object
  \<open>{role}\<close> for update member role, and absent for the other ten operations, the
  deletes and accept and decline invitation among them.
\<close>

theorem accessor_requests:
  assumes "getAuthToken config = Resolved (Some token)" and "token \<noteq> []"
  shows "\<exists>init. snd (call config fetch stringify op) = [(baseUrl config @ endpoint_path op, init)]
           \<and> verb init = endpoint_verb op
           \<and> body init = map_option stringify (payload op)
           \<and> headers init ''Authorization'' = Some (''Bearer '' @ token)
           \<and> headers init ''Content-Type'' = Some ''application/json''"
  using assms
  by (cases op) (simp_all add: accessor_defs request_with_token verb_def no_options_def)

theorem accessor_requests_witness:
  "getAuthToken example_config = Resolved (Some ''mock-auth-token'')
   \<and> ''mock-auth-token'' \<noteq> []
   \<and> urls (snd (call example_config (ok_fetch :: json fetch) sample_stringify
                   (UpdateMemberRole ''abc12345'' ''m1'' (JString ''manager''))))
       = [''https://api.example.com/api/v1/entities/abc12345/members/m1'']
   \<and> verbs (snd (call example_config (ok_fetch :: json fetch) sample_stringify
                    (UpdateMemberRole ''abc12345'' ''m1'' (JString ''manager''))))
       = [''PUT'']
   \<and> bodies (snd (call example_config (ok_fetch :: json fetch) sample_stringify
                     (UpdateMemberRole ''abc12345'' ''m1'' (JString ''manager''))))
       = [Some ''{...}'']"
  using accessor_requests [of example_config "''mock-auth-token''" "ok_fetch :: json fetch"
      sample_stringify "UpdateMemberRole ''abc12345'' ''m1'' (JString ''manager'')"]
  by (auto simp: example_config_def urls_def verbs_def bodies_def sample_stringify_def)

text \<open>
  Not every write operation carries a body: accept invitation is a \<open>POST\<close> and delete
  entity a \<open>DELETE\<close>, and the request of either has no body at all; their input travels
  in the path.
\<close>

theorem write_without_body_counterexample:
  "is_write (AcceptInvitation ''token123'')
   \<and> bodies (snd (call example_config (ok_fetch :: json fetch) sample_stringify
                     (AcceptInvitation ''token123''))) = [None]
   \<and> is_write (DeleteEntity ''abc12345'')
   \<and> bodies (snd (call example_config (ok_fetch :: json fetch) sample_stringify
                     (DeleteEntity ''abc12345''))) = [None]"
  by (simp add: is_write_def bodies_def acceptInvitation_def deleteEntity_def request_def
      example_config_def Let_def)


section \<open>Logout\<close>



text \<open>
  The other effects of the commit in which the logout is seen do not undo it (both return
  at once for a signed-out user), and the logout touches no other storage entry.
\<close>

lemma logout_commit_stays_cleared:
  assumes "truthy (previousUserUid s)"
  shows "selectedSlug (commit None entities loading runPersist runAutoSelect s) = None
       \<and> \<not> isInitialized (commit None entities loading runPersist runAutoSelect s)
       \<and> persisted STORAGE_KEY (commit None entities loading runPersist runAutoSelect s) = None"
  using assms
  by (simp add: commit_def userEffect_def persistEffect_def autoSelectEffect_def
      persisted_def removeItem_def Let_def split: option.splits)

lemma logout_keeps_other_entries:
  "k \<noteq> STORAGE_KEY \<Longrightarrow> persisted k (userEffect None s) = persisted k s"
  by (simp add: userEffect_def persisted_def removeItem_def Let_def split: option.splits)


section \<open>Cache-key namespaces\<close>

lemmas key_defs =
  entityKeys_all_def entityKeys_lists_def entityKeys_list_def entityKeys_details_def
  entityKeys_detail_def memberKeys_all_def memberKeys_list_def invitationKeys_all_def
  invitationKeys_myList_def invitationKeys_entityList_def

lemma literal_keys:
  "entityKeys_all = [''entities'']"
  "entityKeys_lists = [''entities'', ''list'']"
  "entityKeys_list = [''entities'', ''list'']"
  "entityKeys_details = [''entities'', ''detail'']"
  "entityKeys_detail slug = [''entities'', ''detail'', slug]"
  "memberKeys_all slug = [''entities'', ''detail'', slug, ''members'']"
  "memberKeys_list slug = [''entities'', ''detail'', slug, ''members'', ''list'']"
  "invitationKeys_all = [''invitations'']"
  "invitationKeys_myList = [''invitations'', ''my'']"
  "invitationKeys_entityList slug = [''entities'', ''detail'', slug, ''invitations'']"
  by (simp_all add: key_defs)

lemma same_key_iff:
  "key_of a = key_of b \<longleftrightarrow>
      a = b \<or> (a = EntityLists \<and> b = EntityList) \<or> (a = EntityList \<and> b = EntityLists)"
  by (cases a; cases b) (simp_all add: literal_keys)

lemma key_of_child:
  "key_of c = (case parent c of None \<Rightarrow> [segment c] | Some p \<Rightarrow> key_of p @ [segment c])"
  by (cases c) (simp_all add: literal_keys)

lemma prefix_iff_path:
  "prefix (key_of a) (key_of b) \<longleftrightarrow> a \<in> set (namespace_path b)"
  by (cases a; cases b) (auto simp add: literal_keys)

text \<open>
  Claim C7, as amended.  The key builders are functions of their argument, and their keys
  are \<open>['entities']\<close>, \<open>['entities','list']\<close> (from \<open>lists()\<close> and from \<open>list()\<close>),
  \<open>['entities','detail']\<close>, \<open>['entities','detail',slug]\<close>,
  \<open>['entities','detail',slug,'members']\<close>, \<open>['entities','detail',slug,'members','list']\<close>,
  \<open>['invitations']\<close>, \<open>['invitations','my']\<close> and, for the invitations of an entity,
  \<open>['entities','detail',slug,'invitations']\<close>.  Two builder calls give the same key
  exactly when they are the same call, or are \<open>entityKeys.lists()\<close> and
  \<open>entityKeys.list()\<close>.  Every key is the key of its parent in the tree
  \<open>entities \<rightarrow> {list | detail \<rightarrow> detail(slug) \<rightarrow> {members \<rightarrow> list, invitations}}\<close>,
  \<open>invitations \<rightarrow> {my}\<close> followed by one more element, and a key is a prefix of another
  exactly when its builder lies on the path from the root to the other's: siblings and
  the two roots are unrelated, and the entity-scoped invitation key lies under the detail
  key of its entity, not under the \<open>invitations\<close> root.
\<close>

theorem cache_key_tree:
  "entityKeys_all = [''entities'']
   \<and> entityKeys_lists = [''entities'', ''list'']
   \<and> entityKeys_list = [''entities'', ''list'']
   \<and> entityKeys_details = [''entities'', ''detail'']
   \<and> entityKeys_detail slug = [''entities'', ''detail'', slug]
   \<and> memberKeys_all slug = [''entities'', ''detail'', slug, ''members'']
   \<and> memberKeys_list slug = [''entities'', ''detail'', slug, ''members'', ''list'']
   \<and> invitationKeys_all = [''invitations'']
   \<and> invitationKeys_myList = [''invitations'', ''my'']
   \<and> invitationKeys_entityList slug = [''entities'', ''detail'', slug, ''invitations'']
   \<and> (key_of a = key_of b \<longleftrightarrow>
        a = b \<or> (a = EntityLists \<and> b = EntityList) \<or> (a = EntityList \<and> b = EntityLists))
   \<and> key_of c = (case parent c of None \<Rightarrow> [segment c] | Some p \<Rightarrow> key_of p @ [segment c])
   \<and> (prefix (key_of a) (key_of b) \<longleftrightarrow> a \<in> set (namespace_path b))"
proof -
  note keys = literal_keys
  have same: "key_of a = key_of b \<longleftrightarrow>
      a = b \<or> (a = EntityLists \<and> b = EntityList) \<or> (a = EntityList \<and> b = EntityLists)"
    by (rule same_key_iff)
  have child:
    "key_of c = (case parent c of None \<Rightarrow> [segment c] | Some p \<Rightarrow> key_of p @ [segment c])"
    by (rule key_of_child)
  have order: "prefix (key_of a) (key_of b) \<longleftrightarrow> a \<in> set (namespace_path b)"
    by (rule prefix_iff_path)
  from keys same child order show ?thesis
    by (intro conjI)
qed

text \<open>
  For the entity \<open>acme\<close>: its member list and its invitation list have different keys;
  the invitation list is under its detail key, not under its \<open>members\<close> key and not
  under the \<open>invitations\<close> root; and its detail key does not cover the members of
  another entity.
\<close>

theorem cache_key_tree_witness:
  "key_of (MemberList ''acme'') \<noteq> key_of (InvitationEntityList ''acme'')
   \<and> prefix (key_of (EntityDetail ''acme'')) (key_of (InvitationEntityList ''acme''))
   \<and> \<not> prefix (key_of (MemberAll ''acme'')) (key_of (InvitationEntityList ''acme''))
   \<and> \<not> prefix (key_of InvitationAll) (key_of (InvitationEntityList ''acme''))
   \<and> \<not> prefix (key_of (EntityDetail ''acme'')) (key_of (MemberList ''other''))
   \<and> invitationKeys_entityList ''acme'' = [''entities'', ''detail'', ''acme'', ''invitations'']"
proof -
  have same: "key_of (MemberList ''acme'') = key_of (InvitationEntityList ''acme'') \<longleftrightarrow>
      MemberList ''acme'' = InvitationEntityList ''acme''
      \<or> (MemberList ''acme'' = EntityLists \<and> InvitationEntityList ''acme'' = EntityList)
      \<or> (MemberList ''acme'' = EntityList \<and> InvitationEntityList ''acme'' = EntityLists)"
    and literal:
      "invitationKeys_entityList ''acme'' = [''entities'', ''detail'', ''acme'', ''invitations'']"
    using cache_key_tree [of "''acme''" "MemberList ''acme''" "InvitationEntityList ''acme''"
        EntityAll]
    by blast+
  have under_detail:
    "prefix (key_of (EntityDetail ''acme'')) (key_of (InvitationEntityList ''acme''))
       \<longleftrightarrow> EntityDetail ''acme'' \<in> set (namespace_path (InvitationEntityList ''acme''))"
    using cache_key_tree [of "''acme''" "EntityDetail ''acme''"
        "InvitationEntityList ''acme''" EntityAll]
    by blast
  have not_under_members:
    "prefix (key_of (MemberAll ''acme'')) (key_of (InvitationEntityList ''acme''))
       \<longleftrightarrow> MemberAll ''acme'' \<in> set (namespace_path (InvitationEntityList ''acme''))"
    using cache_key_tree [of "''acme''" "MemberAll ''acme''"
        "InvitationEntityList ''acme''" EntityAll]
    by blast
  have not_under_root:
    "prefix (key_of InvitationAll) (key_of (InvitationEntityList ''acme''))
       \<longleftrightarrow> InvitationAll \<in> set (namespace_path (InvitationEntityList ''acme''))"
    using cache_key_tree [of "''acme''" InvitationAll "InvitationEntityList ''acme''" EntityAll]
    by blast
  have other_entity:
    "prefix (key_of (EntityDetail ''acme'')) (key_of (MemberList ''other''))
       \<longleftrightarrow> EntityDetail ''acme'' \<in> set (namespace_path (MemberList ''other''))"
    using cache_key_tree [of "''acme''" "EntityDetail ''acme''" "MemberList ''other''" EntityAll]
    by blast
  show ?thesis
    unfolding same under_detail not_under_members not_under_root other_entity literal
    by simp
qed

text \<open>
  Two different builders collide, and the entity-scoped invitation key of the entity
  \<open>acme\<close> is in the \<open>entities\<close> tree, outside the \<open>invitations\<close> root.
\<close>

theorem cache_key_counterexample:
  "key_of EntityList = key_of EntityLists
   \<and> EntityList \<noteq> EntityLists
   \<and> \<not> prefix invitationKeys_all (invitationKeys_entityList ''acme'')
   \<and> prefix entityKeys_all (invitationKeys_entityList ''acme'')"
  by (simp add: key_defs)


section \<open>Invalidation on accepting an invitation\<close>

lemma accept_resolves:
  assumes "fst (acceptInvitation config fetch token) = Resolved response" "success response"
  shows "useAcceptInvitation config fetch token
           = (Resolved (), snd (acceptInvitation config fetch token),
              [invitationKeys_myList, entityKeys_lists])"
  using assms
  by (cases "acceptInvitation config fetch token")
     (simp add: useAcceptInvitation_def useAcceptInvitation_mutationFn_def
       useAcceptInvitation_onSuccess_def)

text \<open>
  Claim C8.  When the accept call returns a successful envelope, the mutation invalidates
  exactly two keys, the caller's invitation list and the entity lists; they cover the
  queries of those two lists, and no key at or below the detail key of any entity.
\<close>

theorem accept_invalidates_two_namespaces:
  assumes "fst (acceptInvitation config fetch token) = Resolved response"
    and "success response"
  shows "snd (snd (useAcceptInvitation config fetch token))
           = [invitationKeys_myList, entityKeys_lists]
       \<and> invitationKeys_myList \<noteq> entityKeys_lists
       \<and> invalidates invitationKeys_myList invitationKeys_myList
       \<and> invalidates entityKeys_lists entityKeys_list
       \<and> (\<forall>k \<in> set (snd (snd (useAcceptInvitation config fetch token))).
            \<forall>slug rest. \<not> invalidates k (entityKeys_detail slug @ rest))"
  using accept_resolves [OF assms]
  by (simp add: key_defs invalidates_def)

theorem accept_invalidates_two_namespaces_witness:
  "fst (acceptInvitation example_config (ok_fetch :: json fetch) ''token123'')
     = Resolved \<lparr>success = True, data = None, error = None\<rparr>
   \<and> snd (snd (useAcceptInvitation example_config (ok_fetch :: json fetch) ''token123''))
       = [[''invitations'', ''my''], [''entities'', ''list'']]
   \<and> \<not> invalidates [''entities'', ''list''] (entityKeys_detail ''acme'')"
  using accept_invalidates_two_namespaces [of example_config "ok_fetch :: json fetch"
      "''token123''" "\<lparr>success = True, data = None, error = None\<rparr>"]
  by (simp add: acceptInvitation_def request_def example_config_def ok_fetch_def Let_def
      key_defs invalidates_def)

text \<open>A failed acceptance invalidates nothing.\<close>

lemma accept_failure_invalidates_nothing:
  assumes "fst (acceptInvitation config fetch token) = Resolved response"
    and "\<not> success response"
  shows "snd (snd (useAcceptInvitation config fetch token)) = []"
  using assms
  by (cases "acceptInvitation config fetch token")
     (simp add: useAcceptInvitation_def useAcceptInvitation_mutationFn_def)


section \<open>Disabled queries\<close>

text \<open>
  Claim C9.  With a null slug each of the three bindings (single entity, members, entity
  invitations) is disabled, has the key \<open>["disabled"]\<close>, and its query function settles
  at once, without any call of the client, to null for the single entity and to the empty
  list for the two lists.  The sentinel key is no key of the three builders, and neither
  covers nor is covered by one.
\<close>

theorem disabled_queries:
  "queryKey (useEntity config fetchE None) = [''disabled'']
   \<and> \<not> enabled (useEntity config fetchE None)
   \<and> queryFn (useEntity config fetchE None) = (Resolved Null, [])
   \<and> queryKey (useEntityMembers config fetchM None) = [''disabled'']
   \<and> \<not> enabled (useEntityMembers config fetchM None)
   \<and> queryFn (useEntityMembers config fetchM None) = (Resolved [], [])
   \<and> queryKey (useEntityInvitations config fetchI None) = [''disabled'']
   \<and> \<not> enabled (useEntityInvitations config fetchI None)
   \<and> queryFn (useEntityInvitations config fetchI None) = (Resolved (Value []), [])
   \<and> key_of b \<noteq> [''disabled'']
   \<and> \<not> invalidates (key_of b) [''disabled'']
   \<and> \<not> invalidates [''disabled''] (key_of b)"
  by (cases b)
     (simp_all add: useEntity_def useEntityMembers_def useEntityInvitations_def key_defs
       invalidates_def)

theorem disabled_queries_witness:
  "queryFn (useEntity example_config (offline_fetch :: json fetch) None) = (Resolved Null, [])
   \<and> queryFn (useEntityMembers example_config (offline_fetch :: json list fetch) None)
       = (Resolved [], [])
   \<and> key_of (MemberList ''disabled'') \<noteq> [''disabled'']"
  using disabled_queries [of example_config "offline_fetch :: json fetch"
      "offline_fetch :: json list fetch" "offline_fetch :: json list fetch"
      "MemberList ''disabled''"]
  by simp


section \<open>Using the context outside a provider\<close>

text \<open>
  Claim C10.  With no enclosing provider, \<open>useCurrentEntity\<close> throws the error
  \<open>useCurrentEntity must be used within CurrentEntityProvider\<close>, and
  \<open>useCurrentEntityOptional\<close> returns null.
\<close>

theorem outside_provider:
  "useCurrentEntity [] = Inl (Error ''useCurrentEntity must be used within CurrentEntityProvider'')
   \<and> useCurrentEntityOptional [] = None"
  by (simp add: useCurrentEntity_def useCurrentEntityOptional_def useContext_def)

text \<open>Inside a provider both hooks give the value of the nearest one.\<close>

lemma inside_provider:
  "useCurrentEntity (v # providers) = Inr v \<and> useCurrentEntityOptional (v # providers) = Some v"
  by (simp add: useCurrentEntity_def useCurrentEntityOptional_def useContext_def)

end
